theory Spec2Isabelle
  imports Complex_Main
begin

section \<open>JSON documents and the JavaScript operations applied to them\<close>

text \<open>
  Both files of the tool hold JSON. A parsed document is a value of \<open>json\<close>; an object
  keeps its properties as an association list in property order (the order
  \<open>Object.keys\<close> and \<open>JSON.stringify\<close> follow). Strings are lists of 8-bit
  characters, which stand for the code units up to \<open>U+00FF\<close>.

  A number is the double that \<open>JSON.parse\<close> returns. \<open>Finite r\<close> is the finite double
  of value \<open>r\<close>, with one zero (\<open>-0 === 0\<close>, and \<open>JSON.stringify\<close> writes both as
  \<open>0\<close>); what is proved for every rational holds for the doubles among them. A literal
  beyond the range of the doubles, such as \<open>1e309\<close>, is read as \<open>Infinity\<close>, here
  \<open>PlusInfinity\<close>, and \<open>-1e309\<close> as \<open>MinusInfinity\<close>. \<open>JSON.parse\<close> returns no
  \<open>NaN\<close>. The tool only tests numbers for truthiness, compares them with \<open>===\<close> and
  writes them back.

  A JavaScript value that may be \<open>undefined\<close> is a \<open>json option\<close>, with \<open>None\<close> for
  \<open>undefined\<close>.
\<close>

datatype number = Finite rat | PlusInfinity | MinusInfinity

datatype json =
    JNull
  | JBool bool
  | JNum number
  | JStr string
  | JArr "json list"
  | JObj "(string \<times> json) list"

type_synonym jobject = "(string \<times> json) list"
type_synonym jsval = "json option"

datatype error = TypeError | InvalidConfigFormat | WriteError

text \<open>Truthiness, as \<open>if (v)\<close>, \<open>!v\<close>, \<open>a && b\<close> and \<open>a || b\<close> test it.\<close>

fun truthy :: "jsval \<Rightarrow> bool" where
  "truthy None = False"
| "truthy (Some JNull) = False"
| "truthy (Some (JBool b)) = b"
| "truthy (Some (JNum n)) = (n \<noteq> Finite 0)"
| "truthy (Some (JStr s)) = (s \<noteq> [])"
| "truthy (Some (JArr xs)) = True"
| "truthy (Some (JObj kvs)) = True"

text \<open>
  \<open>a === b\<close>. Primitives compare by value. Two objects or arrays are equal only when
  they are the same object; every comparison the tool makes is between values that come
  from two different calls of \<open>JSON.parse\<close>, so an object or an array on either side
  makes the comparison false.
\<close>

fun strict_eq :: "jsval \<Rightarrow> jsval \<Rightarrow> bool" where
  "strict_eq None None = True"
| "strict_eq (Some JNull) (Some JNull) = True"
| "strict_eq (Some (JBool a)) (Some (JBool b)) = (a = b)"
| "strict_eq (Some (JNum a)) (Some (JNum b)) = (a = b)"
| "strict_eq (Some (JStr a)) (Some (JStr b)) = (a = b)"
| "strict_eq u v = False"

text \<open>
  \<open>v.k\<close> for a value \<open>v\<close> that is neither \<open>null\<close> nor \<open>undefined\<close>, and a key \<open>k\<close>
  that no prototype defines (the tool reads \<open>env\<close>, \<open>config\<close>, \<open>name\<close>,
  \<open>_configName\<close>, \<open>authToken\<close>, \<open>baseUrl\<close> and the two \<open>ANTHROPIC_\<close> keys): an object
  gives its own property, everything else gives \<open>undefined\<close>.
\<close>

fun prop_of :: "json \<Rightarrow> string \<Rightarrow> jsval" where
  "prop_of (JObj kvs) k = map_of kvs k"
| "prop_of v k = None"

text \<open>\<open>v.k\<close> for any value: reading a property of \<open>null\<close> or \<open>undefined\<close> throws.\<close>

fun getProp :: "jsval \<Rightarrow> string \<Rightarrow> error + jsval" where
  "getProp None k = Inl TypeError"
| "getProp (Some JNull) k = Inl TypeError"
| "getProp (Some v) k = Inr (prop_of v k)"

text \<open>\<open>v || {}\<close>\<close>

definition or_empty :: "jsval \<Rightarrow> json" where
  "or_empty v = (case v of None \<Rightarrow> JObj [] | Some x \<Rightarrow> if truthy (Some x) then x else JObj [])"

text \<open>
  \<open>Object.keys(v).length\<close> for a value that is not \<open>null\<close>: the own enumerable
  properties of an object, the indices of an array or of a string, nothing for a number
  or a boolean.
\<close>

fun keys_length :: "json \<Rightarrow> nat" where
  "keys_length (JObj kvs) = length kvs"
| "keys_length (JArr xs) = length xs"
| "keys_length (JStr s) = length s"
| "keys_length v = 0"

text \<open>
  The value that the text \<open>JSON.stringify(v, null, 2)\<close> holds, that is, the value that
  \<open>JSON.parse\<close> reads from it, for a value \<open>v\<close> that \<open>JSON.parse\<close> returned. A finite
  number is written so that it reads as the same double; a number that is not finite is
  written as \<open>null\<close>, also inside arrays and objects. Everything else is written as it
  is, the properties of an object in their order.
\<close>

primrec stringified :: "json \<Rightarrow> json" where
  "stringified JNull = JNull"
| "stringified (JBool b) = JBool b"
| "stringified (JNum n) = (case n of Finite r \<Rightarrow> JNum (Finite r) | PlusInfinity \<Rightarrow> JNull | MinusInfinity \<Rightarrow> JNull)"
| "stringified (JStr s) = JStr s"
| "stringified (JArr xs) = JArr (map stringified xs)"
| "stringified (JObj kvs) = JObj (map (map_prod id stringified) kvs)"

text \<open>The properties of an object, as \<open>JSON.stringify\<close> writes them.\<close>

definition stringified_object :: "jobject \<Rightarrow> jobject" where
  "stringified_object kvs = map (map_prod id stringified) kvs"


section \<open>The two files\<close>

text \<open>
  A file is absent, holds text that \<open>JSON.parse\<close> rejects, or holds a document: the
  value that \<open>JSON.parse\<close> reads from its text.
  \<open>settings.json\<close> may hold any JSON value; \<open>apiConfigs.json\<close> holds an array of
  objects, the configurations.
\<close>

datatype 'a stored = Absent | Unparsable | Parsed 'a

record fs =
  settings_file :: "json stored"
  api_configs_file :: "jobject list stored"

definition readApiConfigs :: "fs \<Rightarrow> jobject list" where
  "readApiConfigs s = (case api_configs_file s of
       Absent \<Rightarrow> []
     | Unparsable \<Rightarrow> []
     | Parsed apiConfigs \<Rightarrow> apiConfigs)"

definition readSettings :: "fs \<Rightarrow> json" where
  "readSettings s = (case settings_file s of
       Absent \<Rightarrow> JObj [(''env'', JObj [])]
     | Unparsable \<Rightarrow> JObj [(''env'', JObj [])]
     | Parsed settings \<Rightarrow> settings)"

section \<open>The resolver of the active configuration\<close>

text \<open>The predicate of the first \<open>find\<close>: \<open>config.name === settings._configName\<close>.\<close>

definition name_matches :: "json \<Rightarrow> jobject \<Rightarrow> bool" where
  "name_matches settings config = strict_eq (map_of config ''name'') (prop_of settings ''_configName'')"

text \<open>The predicate of the second \<open>find\<close>, the comparison of base URL and token.\<close>

definition credentials_match :: "json \<Rightarrow> jobject \<Rightarrow> bool" where
  "credentials_match settings config =
     (case map_of config ''config'' of
        None \<Rightarrow> False
      | Some cfg \<Rightarrow>
          if \<not> truthy (Some cfg) then False
          else
            let currentEnv = or_empty (prop_of settings ''env'');
                configEnv = or_empty (prop_of cfg ''env'')
            in strict_eq (prop_of currentEnv ''ANTHROPIC_BASE_URL'') (prop_of configEnv ''ANTHROPIC_BASE_URL'')
             \<and> strict_eq (prop_of currentEnv ''ANTHROPIC_AUTH_TOKEN'') (prop_of configEnv ''ANTHROPIC_AUTH_TOKEN''))"

definition getCurrentConfig :: "fs \<Rightarrow> jobject option" where
  "getCurrentConfig s =
     (let settings = readSettings s in
      if \<not> truthy (Some settings) \<or> keys_length settings = 0 then None
      else
        let apiConfigs = readApiConfigs s;
            matched = (if truthy (prop_of settings ''_configName'')
                       then find (name_matches settings) apiConfigs else None)
        in case matched of
             Some config \<Rightarrow> Some config
           | None \<Rightarrow> find (credentials_match settings) apiConfigs)"

section \<open>Writing a file\<close>

text \<open>
  \<open>fs.writeFileSync(path, text, 'utf8')\<close> opens the file for writing, which creates it
  or truncates it, writes the text and closes the file. The call succeeds, or throws
  before the file is opened (no permission, no directory), or throws once the file has
  been truncated (disk full, I/O error). In the last case the file holds a proper prefix
  of the text; the tool writes only objects and arrays, no proper prefix of whose text
  is JSON, so the file is then \<open>Unparsable\<close>. Which of the three happens is an input of
  the model. The document given to \<open>writeFileSync\<close> below is the one that the text
  written holds: the callers pass what \<open>JSON.stringify\<close> makes of their value.
\<close>

datatype write_fault = NoFault | FailBeforeOpen | FailAfterTruncate

definition writeFileSync :: "write_fault \<Rightarrow> 'a \<Rightarrow> 'a stored \<Rightarrow> (error + unit) \<times> 'a stored" where
  "writeFileSync fault doc old = (case fault of
       NoFault \<Rightarrow> (Inr (), Parsed doc)
     | FailBeforeOpen \<Rightarrow> (Inl WriteError, old)
     | FailAfterTruncate \<Rightarrow> (Inl WriteError, Unparsable))"

text \<open>
  A function of the tool either returns or ends the process with \<open>process.exit(code)\<close>
  after printing the error it caught.
\<close>

datatype status = Returned | Exited nat error

definition saveSettings :: "jobject \<Rightarrow> write_fault \<Rightarrow> fs \<Rightarrow> status \<times> fs" where
  "saveSettings settings fault s =
     (case writeFileSync fault (stringified (JObj settings)) (settings_file s) of
        (Inl e, f) \<Rightarrow> (Exited 1 e, s\<lparr>settings_file := f\<rparr>)
      | (Inr u, f) \<Rightarrow> (Returned, s\<lparr>settings_file := f\<rparr>))"

definition saveApiConfigs :: "jobject list \<Rightarrow> write_fault \<Rightarrow> fs \<Rightarrow> status \<times> fs" where
  "saveApiConfigs apiConfigs fault s =
     (case writeFileSync fault (map stringified_object apiConfigs) (api_configs_file s) of
        (Inl e, f) \<Rightarrow> (Exited 1 e, s\<lparr>api_configs_file := f\<rparr>)
      | (Inr u, f) \<Rightarrow> (Returned, s\<lparr>api_configs_file := f\<rparr>))"

section \<open>The settings merger\<close>

text \<open>
  \<open>o.k = v\<close> on an object, for a value \<open>v\<close> that is defined: an existing property keeps
  its place and takes the value, a new property comes last (the keys that the tool
  assigns are no array indices, which an object orders first).
\<close>

fun assign :: "jobject \<Rightarrow> string \<Rightarrow> json \<Rightarrow> jobject" where
  "assign [] k v = [(k, v)]"
| "assign ((k', v') # kvs) k v = (if k' = k then (k, v) # kvs else (k', v') # assign kvs k v)"

text \<open>
  \<open>o.k = v\<close> on an object, as far as \<open>JSON.stringify\<close> then shows its properties. A
  property set to \<open>undefined\<close> is left out of the text, and the merger does not read it
  again.
\<close>

fun set_own :: "jobject \<Rightarrow> string \<Rightarrow> jsval \<Rightarrow> jobject" where
  "set_own kvs k (Some v) = assign kvs k v"
| "set_own kvs k None = filter (\<lambda>(k', v'). k' \<noteq> k) kvs"

text \<open>
  \<open>h.k = v\<close> for a holder \<open>h\<close> that is not \<open>null\<close>, as far as \<open>JSON.stringify\<close>
  then shows the properties of \<open>h\<close>. The script does not run in strict mode: the assignment to a property of a
  boolean, a number or a string does nothing. On an array it sets a property that is not
  an index, which \<open>JSON.stringify\<close> does not write.
\<close>

fun set_prop :: "json \<Rightarrow> string \<Rightarrow> jsval \<Rightarrow> json" where
  "set_prop (JObj kvs) k v = JObj (set_own kvs k v)"
| "set_prop h k v = h"

text \<open>
  The value of \<open>selectedConfig.config.env\<close> when
  \<open>selectedConfig.config && selectedConfig.config.env\<close> is truthy.
\<close>

definition nested_env :: "jobject \<Rightarrow> json option" where
  "nested_env selectedConfig =
     (case map_of selectedConfig ''config'' of
        None \<Rightarrow> None
      | Some cfg \<Rightarrow>
          if truthy (Some cfg) then
            (case prop_of cfg ''env'' of
               None \<Rightarrow> None
             | Some env \<Rightarrow> if truthy (Some env) then Some env else None)
          else None)"

text \<open>The extraction of \<open>authToken\<close> and \<open>baseUrl\<close> in \<open>saveSettingsPreservingHooks\<close>.\<close>

definition extract_credentials :: "jobject \<Rightarrow> error + jsval \<times> jsval" where
  "extract_credentials selectedConfig =
     (case nested_env selectedConfig of
        Some env \<Rightarrow> Inr (prop_of env ''ANTHROPIC_AUTH_TOKEN'', prop_of env ''ANTHROPIC_BASE_URL'')
      | None \<Rightarrow>
          if truthy (map_of selectedConfig ''authToken'') \<and> truthy (map_of selectedConfig ''baseUrl'')
          then Inr (map_of selectedConfig ''authToken'', map_of selectedConfig ''baseUrl'')
          else Inl InvalidConfigFormat)"

text \<open>
  The statements of \<open>saveSettingsPreservingHooks\<close> between reading the settings and
  writing them: the document the function hands to \<open>JSON.stringify\<close>, or the error it
  throws.
  For a document that is \<open>null\<close>, reading \<open>currentSettings.env\<close> throws. For a boolean,
  a number or a string, \<open>currentSettings.env = {}\<close> does nothing and, once the
  credentials are extracted, the assignment to \<open>currentSettings.env.ANTHROPIC_AUTH_TOKEN\<close>
  throws. For an array, the three assignments set properties that are not indices, which
  \<open>JSON.stringify\<close> does not write.
\<close>

definition updated_settings :: "jobject \<Rightarrow> json \<Rightarrow> error + json" where
  "updated_settings selectedConfig currentSettings =
     (case currentSettings of
        JNull \<Rightarrow> Inl TypeError
      | JObj kvs \<Rightarrow>
          let kvs1 = (if \<not> truthy (map_of kvs ''env'') then assign kvs ''env'' (JObj []) else kvs)
          in (case extract_credentials selectedConfig of
                Inl e \<Rightarrow> Inl e
              | Inr (authToken, baseUrl) \<Rightarrow>
                  let kvs2 = set_own kvs1 ''_configName'' (map_of selectedConfig ''name'')
                  in (case map_of kvs2 ''env'' of
                        None \<Rightarrow> Inl TypeError
                      | Some JNull \<Rightarrow> Inl TypeError
                      | Some env \<Rightarrow>
                          Inr (JObj (assign kvs2 ''env''
                            (set_prop (set_prop env ''ANTHROPIC_AUTH_TOKEN'' authToken)
                               ''ANTHROPIC_BASE_URL'' baseUrl)))))
      | JArr xs \<Rightarrow>
          (case extract_credentials selectedConfig of
             Inl e \<Rightarrow> Inl e
           | Inr credentials \<Rightarrow> Inr (JArr xs))
      | primitive \<Rightarrow>
          (case extract_credentials selectedConfig of
             Inl e \<Rightarrow> Inl e
           | Inr credentials \<Rightarrow> Inl TypeError))"

definition saveSettingsPreservingHooks :: "jobject \<Rightarrow> write_fault \<Rightarrow> fs \<Rightarrow> status \<times> fs" where
  "saveSettingsPreservingHooks selectedConfig fault s =
     (case updated_settings selectedConfig (readSettings s) of
        Inl e \<Rightarrow> (Exited 1 e, s)
      | Inr doc \<Rightarrow>
          (case writeFileSync fault (stringified doc) (settings_file s) of
             (Inl e, f) \<Rightarrow> (Exited 1 e, s\<lparr>settings_file := f\<rparr>)
           | (Inr u, f) \<Rightarrow> (Returned, s\<lparr>settings_file := f\<rparr>)))"

section \<open>The workflows\<close>

text \<open>
  What a workflow ends with. \<open>Threw\<close> is an exception that nothing catches: it is
  thrown before the menu is shown, or in a callback whose promise has no handler.
  \<open>Reported\<close> is an exception thrown in the callback of the menu, which the handler
  of the promise prints. \<open>Failed\<close> is \<open>process.exit\<close> with a non-zero code after
  an error caught by the function that saves. \<open>Aborted\<close> is the user leaving a prompt
  without a valid answer.
\<close>

datatype outcome =
    NoConfigs
  | Threw error
  | Reported error
  | InvalidOrdinal
  | AlreadyActive
  | Cancelled
  | Switched
  | Removed
  | Added
  | Aborted
  | Failed nat error

text \<open>
  White space as \<open>String.prototype.trim\<close> and \<open>parseInt\<close> skip it, among the code units
  up to \<open>U+00FF\<close>: TAB, LF, VT, FF, CR, SPACE and NBSP.
\<close>

definition js_whitespace :: "char \<Rightarrow> bool" where
  "js_whitespace c = ((of_char c :: nat) \<in> {9, 10, 11, 12, 13, 32, 160})"

definition trim :: "string \<Rightarrow> string" where
  "trim input = rev (dropWhile js_whitespace (rev (dropWhile js_whitespace input)))"

definition is_digit :: "char \<Rightarrow> bool" where
  "is_digit c = (48 \<le> (of_char c :: nat) \<and> (of_char c :: nat) \<le> 57)"

definition digits_value :: "string \<Rightarrow> int" where
  "digits_value ds = foldl (\<lambda>acc c. 10 * acc + (int (of_char c) - 48)) 0 ds"

text \<open>
  \<open>parseInt(text, 10)\<close>: leading white space, an optional sign, then the longest run
  of decimal digits; \<open>NaN\<close>, here \<open>None\<close>, when there is no digit.
\<close>

definition parseInt10 :: "string \<Rightarrow> int option" where
  "parseInt10 text =
     (let t = dropWhile js_whitespace text;
          negative = (case t of [] \<Rightarrow> False | c # r \<Rightarrow> c = CHR ''-'');
          u = (case t of [] \<Rightarrow> [] | c # r \<Rightarrow> if c = CHR ''-'' \<or> c = CHR ''+'' then r else t);
          ds = takeWhile is_digit u
      in if ds = [] then None
         else Some (if negative then - digits_value ds else digits_value ds))"

text \<open>
  The line of the menu for one configuration. Its text is not modelled, only whether
  building it throws: \<open>config.name.padEnd\<close> needs a string, and
  \<open>config.config.env.ANTHROPIC_AUTH_TOKEN\<close> needs \<open>config.config\<close> and
  \<open>config.config.env\<close> to be neither \<open>null\<close> nor \<open>undefined\<close>.
\<close>

definition config_info :: "jobject \<Rightarrow> error + unit" where
  "config_info config =
     (case map_of config ''name'' of
        Some (JStr name) \<Rightarrow>
          (case getProp (map_of config ''config'') ''env'' of
             Inl e \<Rightarrow> Inl e
           | Inr env \<Rightarrow>
               (case getProp env ''ANTHROPIC_AUTH_TOKEN'' of
                  Inl e \<Rightarrow> Inl e
                | Inr token \<Rightarrow> Inr ()))
      | other \<Rightarrow> Inl TypeError)"

text \<open>The choices of the menu: one per configuration, whose value is its index.\<close>

definition build_choices :: "jobject list \<Rightarrow> error + nat list" where
  "build_choices apiConfigs =
     (if list_all (\<lambda>config. config_info config = Inr ()) apiConfigs
      then Inr [0..<length apiConfigs] else Inl TypeError)"

text \<open>\<open>currentConfig && selectedConfig.name === currentConfig.name\<close>\<close>

definition already_active :: "jobject option \<Rightarrow> jobject \<Rightarrow> bool" where
  "already_active currentConfig selectedConfig =
     (case currentConfig of
        None \<Rightarrow> False
      | Some current \<Rightarrow> strict_eq (map_of selectedConfig ''name'') (map_of current ''name''))"

text \<open>
  \<open>processSelectedConfig\<close>, up to the details printed after the switch (the prompt that
  offers to start the companion program is left out). \<open>confirm\<close> is the user's answer.
\<close>

definition processSelectedConfig :: "jobject \<Rightarrow> bool \<Rightarrow> write_fault \<Rightarrow> fs \<Rightarrow> outcome \<times> fs" where
  "processSelectedConfig selectedConfig confirm fault s =
     (if confirm then
        (case saveSettingsPreservingHooks selectedConfig fault s of
           (Exited code e, s') \<Rightarrow> (Failed code e, s')
         | (Returned, s') \<Rightarrow>
             (case getProp (map_of selectedConfig ''config'') ''env'' of
                Inl e \<Rightarrow> (Threw e, s')
              | Inr env \<Rightarrow>
                  (case getProp env ''ANTHROPIC_AUTH_TOKEN'' of
                     Inl e \<Rightarrow> (Threw e, s')
                   | Inr token \<Rightarrow> (Switched, s'))))
      else (Cancelled, s))"

text \<open>
  What the user picks in the menu of \<open>listAndSelectConfig\<close>: a configuration, by the
  index that is the value of its choice, or the entry that asks for an ordinal, with the
  text typed then. The menu shows that entry as disabled; the code that handles it is
  modelled as it is written.
\<close>

datatype pick = MenuPick nat | TypedOrdinal string

text \<open>
  A menu returns the value of one of its choices. For an index that is none,
  \<open>apiConfigs[selectedIndex]\<close> is \<open>undefined\<close>: reading its name throws, and
  \<open>saveSettingsPreservingHooks(undefined)\<close> catches the same error and exits.
\<close>

definition listAndSelectConfig :: "pick \<Rightarrow> bool \<Rightarrow> write_fault \<Rightarrow> fs \<Rightarrow> outcome \<times> fs" where
  "listAndSelectConfig choice confirm fault s =
     (let apiConfigs = readApiConfigs s in
      if length apiConfigs = 0 then (NoConfigs, s)
      else
        let currentConfig = getCurrentConfig s in
        case build_choices apiConfigs of
          Inl e \<Rightarrow> (Threw e, s)
        | Inr choices \<Rightarrow>
            (case choice of
               TypedOrdinal indexAnswer \<Rightarrow>
                 (case parseInt10 indexAnswer of
                    None \<Rightarrow> (InvalidOrdinal, s)
                  | Some index \<Rightarrow>
                      if index < 1 \<or> index > int (length apiConfigs) then (InvalidOrdinal, s)
                      else
                        let selectedConfig = apiConfigs ! nat (index - 1) in
                        if already_active currentConfig selectedConfig then (AlreadyActive, s)
                        else processSelectedConfig selectedConfig confirm fault s)
             | MenuPick selectedIndex \<Rightarrow>
                 if selectedIndex < length apiConfigs then
                   (let selectedConfig = apiConfigs ! selectedIndex in
                    if already_active currentConfig selectedConfig then (AlreadyActive, s)
                    else processSelectedConfig selectedConfig confirm fault s)
                 else if currentConfig \<noteq> None then (Reported TypeError, s)
                 else if confirm then (Failed 1 TypeError, s)
                 else (Cancelled, s)))"

text \<open>\<open>apiConfigs.splice(selectedIndex, 1)\<close>, for an index that is not negative.\<close>

definition splice1 :: "nat \<Rightarrow> 'a list \<Rightarrow> 'a list" where
  "splice1 selectedIndex apiConfigs = take selectedIndex apiConfigs @ drop (Suc selectedIndex) apiConfigs"


text \<open>The verdict of a \<open>validate\<close> function of the prompts of \<open>addConfig\<close>.\<close>

datatype validation = Valid | NameEmpty | NameExists string | UrlEmpty | TokenEmpty

definition validate_name :: "fs \<Rightarrow> string \<Rightarrow> validation" where
  "validate_name s input =
     (if trim input = [] then NameEmpty
      else
        let apiConfigs = readApiConfigs s in
        if list_ex (\<lambda>config. strict_eq (map_of config ''name'') (Some (JStr (trim input)))) apiConfigs
        then NameExists (trim input)
        else Valid)"

definition validate_baseUrl :: "string \<Rightarrow> validation" where
  "validate_baseUrl input = (if trim input = [] then UrlEmpty else Valid)"

definition validate_authToken :: "string \<Rightarrow> validation" where
  "validate_authToken input = (if trim input = [] then TokenEmpty else Valid)"

text \<open>
  A prompt with a \<open>validate\<close> function asks again until an answer is valid. The user's
  successive answers are a list; when none of them is valid the user has left the prompt
  and the workflow ends there.
\<close>

fun ask :: "(string \<Rightarrow> validation) \<Rightarrow> string list \<Rightarrow> string option" where
  "ask validate [] = None"
| "ask validate (input # later) = (if validate input = Valid then Some input else ask validate later)"

text \<open>The configuration that \<open>addConfig\<close> builds from the answers.\<close>

definition newConfig :: "string \<Rightarrow> string \<Rightarrow> string \<Rightarrow> string \<Rightarrow> jobject" where
  "newConfig name baseUrl authToken model =
     [(''name'', JStr (trim name)),
      (''config'', JObj
         ([(''env'', JObj
              [(''ANTHROPIC_AUTH_TOKEN'', JStr (trim authToken)),
               (''ANTHROPIC_BASE_URL'', JStr (trim baseUrl)),
               (''CLAUDE_CODE_DISABLE_NONESSENTIAL_TRAFFIC'', JStr ''1'')]),
           (''permissions'', JObj [(''allow'', JArr []), (''deny'', JArr [])])]
          @ (if trim model \<noteq> [] then [(''model'', JStr (trim model))] else [])))]"

definition addConfig ::
  "string list \<Rightarrow> string list \<Rightarrow> string list \<Rightarrow> string \<Rightarrow> bool \<Rightarrow> write_fault \<Rightarrow> fs \<Rightarrow> outcome \<times> fs" where
  "addConfig names baseUrls authTokens model confirm fault s =
     (case ask (validate_name s) names of
        None \<Rightarrow> (Aborted, s)
      | Some name \<Rightarrow>
          (case ask validate_baseUrl baseUrls of
             None \<Rightarrow> (Aborted, s)
           | Some baseUrl \<Rightarrow>
               (case ask validate_authToken authTokens of
                  None \<Rightarrow> (Aborted, s)
                | Some authToken \<Rightarrow>
                    if confirm then
                      (case saveApiConfigs (readApiConfigs s @ [newConfig name baseUrl authToken model]) fault s of
                         (Exited code e, s') \<Rightarrow> (Failed code e, s')
                       | (Returned, s') \<Rightarrow> (Added, s'))
                    else (Cancelled, s))))"

section \<open>The two shapes of a configuration, in the words of the specification\<close>

text \<open>
  The specification says that a shape "yields both values". For the nested shape the
  values are \<open>config.env.ANTHROPIC_AUTH_TOKEN\<close> and \<open>config.env.ANTHROPIC_BASE_URL\<close>,
  for the flat shape \<open>authToken\<close> and \<open>baseUrl\<close>; a value is yielded when it is there
  and truthy (a string that is not empty).
\<close>

definition nested_yields_both :: "jobject \<Rightarrow> bool" where
  "nested_yields_both selectedConfig =
     (case map_of selectedConfig ''config'' of
        None \<Rightarrow> False
      | Some cfg \<Rightarrow>
          (case prop_of cfg ''env'' of
             None \<Rightarrow> False
           | Some env \<Rightarrow> truthy (prop_of env ''ANTHROPIC_AUTH_TOKEN'') \<and> truthy (prop_of env ''ANTHROPIC_BASE_URL'')))"

definition flat_yields_both :: "jobject \<Rightarrow> bool" where
  "flat_yields_both selectedConfig =
     (truthy (map_of selectedConfig ''authToken'') \<and> truthy (map_of selectedConfig ''baseUrl''))"

section \<open>The scenarios of the specification\<close>

text \<open>
  The configurations \<open>A\<close> and \<open>B\<close> of the resolution scenario, a settings document that
  names \<open>B\<close> and carries the credentials of \<open>A\<close>, and a configuration in the flat shape
  with the credentials of \<open>A\<close>.
\<close>

abbreviation scenario_A :: jobject where
  "scenario_A \<equiv>
     [(''name'', JStr ''A''),
      (''config'', JObj [(''env'', JObj [(''ANTHROPIC_AUTH_TOKEN'', JStr ''sk-aaaa''),
                                         (''ANTHROPIC_BASE_URL'', JStr ''https://x'')])])]"

abbreviation scenario_B :: jobject where
  "scenario_B \<equiv>
     [(''name'', JStr ''B''),
      (''config'', JObj [(''env'', JObj [(''ANTHROPIC_AUTH_TOKEN'', JStr ''sk-bbbb''),
                                         (''ANTHROPIC_BASE_URL'', JStr ''https://y'')])])]"

abbreviation scenario_settings :: json where
  "scenario_settings \<equiv>
     JObj [(''_configName'', JStr ''B''),
           (''env'', JObj [(''ANTHROPIC_BASE_URL'', JStr ''https://x''),
                           (''ANTHROPIC_AUTH_TOKEN'', JStr ''sk-aaaa'')])]"

abbreviation scenario_fs :: fs where
  "scenario_fs \<equiv> \<lparr>settings_file = Parsed scenario_settings,
                   api_configs_file = Parsed [scenario_A, scenario_B]\<rparr>"

abbreviation flat_F :: jobject where
  "flat_F \<equiv> [(''name'', JStr ''F''), (''authToken'', JStr ''sk-aaaa''), (''baseUrl'', JStr ''https://x'')]"

text \<open>The merge scenario: configuration \<open>B\<close> applied to a document that names \<open>A\<close>.\<close>

abbreviation merge_B :: jobject where
  "merge_B \<equiv>
     [(''name'', JStr ''B''),
      (''config'', JObj [(''env'', JObj [(''ANTHROPIC_AUTH_TOKEN'', JStr ''T2''),
                                         (''ANTHROPIC_BASE_URL'', JStr ''U2'')])])]"

abbreviation merge_settings :: jobject where
  "merge_settings \<equiv>
     [(''_configName'', JStr ''A''),
      (''env'', JObj [(''ANTHROPIC_AUTH_TOKEN'', JStr ''T1''), (''ANTHROPIC_BASE_URL'', JStr ''U1'')]),
      (''model'', JStr ''opus''),
      (''hooks'', JObj [(''x'', JNum (Finite 1))])]"

section \<open>Properties of the resolver\<close>

lemma find_None_iff_set: "find P xs = None \<longleftrightarrow> (\<forall>x \<in> set xs. \<not> P x)"
  by (induction xs) auto

lemma find_Some_holds: "find P xs = Some x \<Longrightarrow> P x \<and> x \<in> set xs"
  by (induction xs) (auto split: if_splits)

lemma find_ex_Some: "x \<in> set xs \<Longrightarrow> P x \<Longrightarrow> \<exists>y. find P xs = Some y"
  by (cases "find P xs") (auto simp: find_None_iff_set)

lemma truthy_prop_of_keys: "truthy (prop_of d k) \<Longrightarrow> truthy (Some d) \<and> keys_length d \<noteq> 0"
  by (cases d) auto

lemma truthy_prop_of_truthy: "truthy (prop_of v k) \<Longrightarrow> truthy (Some v)"
  by (cases v) simp_all

lemma name_matches_truthy_keys:
  "truthy (prop_of settings ''_configName'') \<Longrightarrow> \<not> (\<not> truthy (Some settings) \<or> keys_length settings = 0)"
  using truthy_prop_of_keys [of settings "''_configName''"] by simp

lemma credentials_match_needs_config:
  "credentials_match settings c \<Longrightarrow> truthy (map_of c ''config'')"
  by (cases "map_of c ''config''") (simp_all add: credentials_match_def split: if_splits)

lemma getCurrentConfig_unfold:
  "getCurrentConfig s =
     (if \<not> truthy (Some (readSettings s)) \<or> keys_length (readSettings s) = 0 then None
      else case (if truthy (prop_of (readSettings s) ''_configName'')
                 then find (name_matches (readSettings s)) (readApiConfigs s) else None) of
             Some config \<Rightarrow> Some config
           | None \<Rightarrow> find (credentials_match (readSettings s)) (readApiConfigs s))"
  by (simp add: getCurrentConfig_def Let_def)

text \<open>
  C2. When \<open>_configName\<close> is set in the settings document (truthy, as the resolver
  tests it) and the list holds a configuration with exactly that name, the resolver
  returns the first configuration of the list with that name, which is that
  configuration when no other entry bears the name. Nothing is assumed of the
  credentials: the name decides even when they are those of another configuration.
\<close>

theorem getCurrentConfig_name_first:
  assumes "truthy (prop_of settings ''_configName'')"
    and "c \<in> set apiConfigs"
    and "name_matches settings c"
  shows "\<exists>found. getCurrentConfig \<lparr>settings_file = Parsed settings, api_configs_file = Parsed apiConfigs\<rparr> = Some found
           \<and> find (name_matches settings) apiConfigs = Some found
           \<and> found \<in> set apiConfigs
           \<and> name_matches settings found
           \<and> ((\<forall>x \<in> set apiConfigs. name_matches settings x \<longrightarrow> x = c) \<longrightarrow> found = c)"
proof -
  let ?s = "\<lparr>settings_file = Parsed settings, api_configs_file = Parsed apiConfigs\<rparr>"
  obtain found where f: "find (name_matches settings) apiConfigs = Some found"
    using find_ex_Some [OF assms(2), of "name_matches settings"] assms(3) by auto
  have in_list: "name_matches settings found \<and> found \<in> set apiConfigs"
    using find_Some_holds [OF f] .
  have rs: "readSettings ?s = settings" and ra: "readApiConfigs ?s = apiConfigs"
    by (simp_all add: readSettings_def readApiConfigs_def)
  have guard: "\<not> (\<not> truthy (Some settings) \<or> keys_length settings = 0)"
    using name_matches_truthy_keys [OF assms(1)] .
  have g: "getCurrentConfig ?s = Some found"
    unfolding getCurrentConfig_unfold rs ra using guard assms(1) f by simp
  have u: "(\<forall>x \<in> set apiConfigs. name_matches settings x \<longrightarrow> x = c) \<longrightarrow> found = c"
    using in_list by simp
  show ?thesis
    using g f in_list u by (intro exI [of _ found]) simp
qed

text \<open>
  The scenario of the specification: the settings name \<open>B\<close> and carry the credentials
  of \<open>A\<close>; the resolver returns \<open>B\<close>.
\<close>

theorem getCurrentConfig_name_first_witness:
  "truthy (prop_of scenario_settings ''_configName'')
   \<and> scenario_B \<in> set [scenario_A, scenario_B]
   \<and> name_matches scenario_settings scenario_B
   \<and> credentials_match scenario_settings scenario_A
   \<and> getCurrentConfig scenario_fs = Some scenario_B"
proof -
  have h1: "truthy (prop_of scenario_settings ''_configName'')" by simp
  have h2: "scenario_B \<in> set [scenario_A, scenario_B]" by simp
  have h3: "name_matches scenario_settings scenario_B" by (simp add: name_matches_def)
  have h4: "credentials_match scenario_settings scenario_A"
    by (simp add: credentials_match_def or_empty_def)
  have u: "\<forall>x \<in> set [scenario_A, scenario_B]. name_matches scenario_settings x \<longrightarrow> x = scenario_B"
    by (simp add: name_matches_def)
  from getCurrentConfig_name_first [OF h1 h2 h3] u
  have "getCurrentConfig scenario_fs = Some scenario_B" by auto
  then show ?thesis using h1 h2 h3 h4 by simp
qed

text \<open>
  C5. The resolver returns null when the configuration list is empty, and when no
  configuration of the list matches the settings document by name (with \<open>_configName\<close>
  set) or by value (base URL and token both equal). Null is an ordinary result: the
  resolver has no other way to end.
\<close>

theorem getCurrentConfig_null:
  "(readApiConfigs s = [] \<longrightarrow> getCurrentConfig s = None)
   \<and> ((\<forall>c \<in> set (readApiConfigs s).
          \<not> (truthy (prop_of (readSettings s) ''_configName'') \<and> name_matches (readSettings s) c)
          \<and> \<not> credentials_match (readSettings s) c)
        \<longrightarrow> getCurrentConfig s = None)"
proof (intro conjI impI)
  assume "readApiConfigs s = []"
  then show "getCurrentConfig s = None"
    by (simp add: getCurrentConfig_def Let_def)
next
  assume h: "\<forall>c \<in> set (readApiConfigs s).
          \<not> (truthy (prop_of (readSettings s) ''_configName'') \<and> name_matches (readSettings s) c)
          \<and> \<not> credentials_match (readSettings s) c"
  then have v: "find (credentials_match (readSettings s)) (readApiConfigs s) = None"
    by (simp add: find_None_iff_set)
  have n: "truthy (prop_of (readSettings s) ''_configName'') \<Longrightarrow>
      find (name_matches (readSettings s)) (readApiConfigs s) = None"
    using h by (simp add: find_None_iff_set)
  show "getCurrentConfig s = None"
    using v n by (simp add: getCurrentConfig_def Let_def)
qed

text \<open>
  An empty list, and a list whose only entry has another name and other credentials
  than the settings.
\<close>

theorem getCurrentConfig_null_witness:
  "readApiConfigs \<lparr>settings_file = Parsed scenario_settings, api_configs_file = Parsed []\<rparr> = []
   \<and> getCurrentConfig \<lparr>settings_file = Parsed scenario_settings, api_configs_file = Parsed []\<rparr> = None
   \<and> \<not> name_matches scenario_settings [(''name'', JStr ''C'')]
   \<and> \<not> credentials_match scenario_settings [(''name'', JStr ''C'')]
   \<and> getCurrentConfig \<lparr>settings_file = Parsed scenario_settings,
                          api_configs_file = Parsed [[(''name'', JStr ''C'')]]\<rparr> = None"
proof -
  let ?s1 = "\<lparr>settings_file = Parsed scenario_settings, api_configs_file = Parsed []\<rparr>"
  let ?s2 = "\<lparr>settings_file = Parsed scenario_settings, api_configs_file = Parsed [[(''name'', JStr ''C'')]]\<rparr>"
  have e: "readApiConfigs ?s1 = []" by (simp add: readApiConfigs_def)
  have n: "\<not> name_matches scenario_settings [(''name'', JStr ''C'')]" by (simp add: name_matches_def)
  have v: "\<not> credentials_match scenario_settings [(''name'', JStr ''C'')]"
    by (simp add: credentials_match_def)
  have h: "\<forall>c \<in> set (readApiConfigs ?s2).
          \<not> (truthy (prop_of (readSettings ?s2) ''_configName'') \<and> name_matches (readSettings ?s2) c)
          \<and> \<not> credentials_match (readSettings ?s2) c"
    using n v by (simp add: readApiConfigs_def readSettings_def)
  have r1: "getCurrentConfig ?s1 = None"
    using getCurrentConfig_null [of ?s1] e by simp
  have r2: "getCurrentConfig ?s2 = None"
    using getCurrentConfig_null [of ?s2] h by blast
  show ?thesis using e n v r1 r2 by simp
qed

lemma resolved_without_config_by_name:
  assumes g: "getCurrentConfig s = Some c" and nc: "\<not> truthy (map_of c ''config'')"
  shows "truthy (prop_of (readSettings s) ''_configName'') \<and> name_matches (readSettings s) c"
proof -
  let ?st = "readSettings s" and ?cs = "readApiConfigs s"
  have nf: "find (credentials_match ?st) ?cs \<noteq> Some c"
  proof
    assume "find (credentials_match ?st) ?cs = Some c"
    then have "credentials_match ?st c"
      using find_Some_holds [of "credentials_match ?st" ?cs c] by simp
    then show False using nc credentials_match_needs_config [of ?st c] by simp
  qed
  show ?thesis
  proof (cases "truthy (prop_of ?st ''_configName'')")
    case False
    then show ?thesis using g nf
      unfolding getCurrentConfig_unfold by (simp split: if_splits)
  next
    case True
    have "find (name_matches ?st) ?cs = Some c"
    proof (cases "find (name_matches ?st) ?cs")
      case None
      then show ?thesis using g nf True
        unfolding getCurrentConfig_unfold by (simp split: if_splits)
    next
      case (Some d)
      then show ?thesis using g True
        unfolding getCurrentConfig_unfold by (simp split: if_splits)
    qed
    then have "name_matches ?st c"
      using find_Some_holds [of "name_matches ?st" ?cs c] by simp
    then show ?thesis using True by simp
  qed
qed

text \<open>
  C9. The comparison of credentials is false for a configuration with no \<open>config\<close>
  (absent or falsy), whatever its top-level \<open>authToken\<close> and \<open>baseUrl\<close> are; the second
  search never returns such a configuration; and when the resolver returns one, it is
  because \<open>_configName\<close> is set and equals its name.
\<close>

theorem value_match_skips_flat:
  "(\<not> truthy (map_of c ''config'') \<longrightarrow> \<not> credentials_match settings c)
   \<and> (find (credentials_match settings) apiConfigs = Some c \<longrightarrow> truthy (map_of c ''config''))
   \<and> (getCurrentConfig s = Some c \<and> \<not> truthy (map_of c ''config'')
        \<longrightarrow> truthy (prop_of (readSettings s) ''_configName'') \<and> name_matches (readSettings s) c)"
proof -
  have 1: "\<not> truthy (map_of c ''config'') \<longrightarrow> \<not> credentials_match settings c"
    using credentials_match_needs_config [of settings c] by auto
  have 2: "find (credentials_match settings) apiConfigs = Some c \<longrightarrow> truthy (map_of c ''config'')"
  proof
    assume "find (credentials_match settings) apiConfigs = Some c"
    then have "credentials_match settings c"
      using find_Some_holds [of "credentials_match settings" apiConfigs c] by simp
    then show "truthy (map_of c ''config'')"
      by (rule credentials_match_needs_config)
  qed
  have 3: "getCurrentConfig s = Some c \<and> \<not> truthy (map_of c ''config'')
        \<longrightarrow> truthy (prop_of (readSettings s) ''_configName'') \<and> name_matches (readSettings s) c"
    using resolved_without_config_by_name [of s c] by simp
  show ?thesis using 1 2 3 by simp
qed

text \<open>
  The flat configuration \<open>F\<close> has the credentials of the settings. Alone in the list it
  is not resolved by a settings document without \<open>_configName\<close>; it is resolved once
  the settings name it; and next to \<open>A\<close>, the search by value returns \<open>A\<close>.
\<close>

theorem value_match_skips_flat_witness:
  "\<not> truthy (map_of flat_F ''config'')
   \<and> \<not> credentials_match scenario_settings flat_F
   \<and> find (credentials_match scenario_settings) [flat_F, scenario_A] = Some scenario_A
   \<and> truthy (map_of scenario_A ''config'')
   \<and> getCurrentConfig
        \<lparr>settings_file = Parsed (JObj [(''env'', JObj [(''ANTHROPIC_BASE_URL'', JStr ''https://x''),
                                                       (''ANTHROPIC_AUTH_TOKEN'', JStr ''sk-aaaa'')])]),
         api_configs_file = Parsed [flat_F]\<rparr> = None
   \<and> getCurrentConfig
        \<lparr>settings_file = Parsed (JObj [(''_configName'', JStr ''F''),
                                      (''env'', JObj [(''ANTHROPIC_BASE_URL'', JStr ''https://x''),
                                                      (''ANTHROPIC_AUTH_TOKEN'', JStr ''sk-aaaa'')])]),
         api_configs_file = Parsed [flat_F]\<rparr> = Some flat_F
   \<and> name_matches (JObj [(''_configName'', JStr ''F''),
                         (''env'', JObj [(''ANTHROPIC_BASE_URL'', JStr ''https://x''),
                                         (''ANTHROPIC_AUTH_TOKEN'', JStr ''sk-aaaa'')])]) flat_F"
proof -
  let ?named = "JObj [(''_configName'', JStr ''F''),
                      (''env'', JObj [(''ANTHROPIC_BASE_URL'', JStr ''https://x''),
                                      (''ANTHROPIC_AUTH_TOKEN'', JStr ''sk-aaaa'')])]"
  let ?s = "\<lparr>settings_file = Parsed ?named, api_configs_file = Parsed [flat_F]\<rparr>"
  have nc: "\<not> truthy (map_of flat_F ''config'')" by simp
  have f: "find (credentials_match scenario_settings) [flat_F, scenario_A] = Some scenario_A"
    by (simp add: credentials_match_def or_empty_def)
  have g0: "getCurrentConfig
        \<lparr>settings_file = Parsed (JObj [(''env'', JObj [(''ANTHROPIC_BASE_URL'', JStr ''https://x''),
                                                       (''ANTHROPIC_AUTH_TOKEN'', JStr ''sk-aaaa'')])]),
         api_configs_file = Parsed [flat_F]\<rparr> = None"
    by (simp add: getCurrentConfig_def readSettings_def readApiConfigs_def credentials_match_def)
  have g: "getCurrentConfig ?s = Some flat_F"
    by (simp add: getCurrentConfig_def readSettings_def readApiConfigs_def name_matches_def)
  have rs: "readSettings ?s = ?named" by (simp add: readSettings_def)
  have a: "\<not> credentials_match scenario_settings flat_F"
    using value_match_skips_flat [of flat_F scenario_settings] nc by blast
  have b: "truthy (map_of scenario_A ''config'')"
    using value_match_skips_flat [of scenario_A scenario_settings "[flat_F, scenario_A]"] f by blast
  have c: "name_matches ?named flat_F"
    using value_match_skips_flat [of flat_F _ _ ?s] g nc unfolding rs by blast
  show ?thesis using nc a f b g0 g c by simp
qed

text \<open>
  C10. When the settings document is an object with no key, the resolver returns null at
  once, whatever the configuration file holds: neither search is attempted.
\<close>

theorem getCurrentConfig_empty_settings:
  "getCurrentConfig \<lparr>settings_file = Parsed (JObj []), api_configs_file = api\<rparr> = None"
  by (simp add: getCurrentConfig_def readSettings_def)

text \<open>
  The configuration below has a \<open>config\<close> without credentials. A document with one key
  and no \<open>env\<close> resolves to it by value, both sides being \<open>undefined\<close>; the empty
  document does not, since no search is made.
\<close>

theorem getCurrentConfig_empty_settings_witness:
  "getCurrentConfig \<lparr>settings_file = Parsed (JObj [(''model'', JStr ''opus'')]),
                      api_configs_file = Parsed [[(''name'', JStr ''A''), (''config'', JObj [])]]\<rparr>
     = Some [(''name'', JStr ''A''), (''config'', JObj [])]
   \<and> getCurrentConfig \<lparr>settings_file = Parsed (JObj []),
                        api_configs_file = Parsed [[(''name'', JStr ''A''), (''config'', JObj [])]]\<rparr> = None"
proof -
  have 1: "getCurrentConfig \<lparr>settings_file = Parsed (JObj [(''model'', JStr ''opus'')]),
                      api_configs_file = Parsed [[(''name'', JStr ''A''), (''config'', JObj [])]]\<rparr>
     = Some [(''name'', JStr ''A''), (''config'', JObj [])]"
    by (simp add: getCurrentConfig_def readSettings_def readApiConfigs_def credentials_match_def or_empty_def)
  show ?thesis
    using 1 getCurrentConfig_empty_settings [of "Parsed [[(''name'', JStr ''A''), (''config'', JObj [])]]"]
    by simp
qed

section \<open>Properties of the settings merger\<close>








lemma set_credentials_other:
  "\<forall>env. h \<noteq> JObj env \<Longrightarrow> set_prop (set_prop h ''ANTHROPIC_AUTH_TOKEN'' a) ''ANTHROPIC_BASE_URL'' b = h"
  by (cases h) simp_all



text \<open>
  A settings document that is not an object is not changed by the merger: it is handed
  to \<open>JSON.stringify\<close> as it was (an array), or the merger fails before it writes.
\<close>

lemma updated_settings_not_object:
  assumes "\<forall>kvs. currentSettings \<noteq> JObj kvs"
    and "updated_settings selectedConfig currentSettings = Inr doc"
  shows "doc = currentSettings"
  using assms
  by (cases currentSettings) (auto simp: updated_settings_def split: sum.splits)



lemma stringified_JObj: "stringified (JObj kvs) = JObj (stringified_object kvs)"
  by (simp add: stringified_object_def)








lemma nested_yields_both_env:
  assumes "nested_yields_both selectedConfig"
  shows "\<exists>cfg env. map_of selectedConfig ''config'' = Some cfg \<and> prop_of cfg ''env'' = Some env
            \<and> nested_env selectedConfig = Some env
            \<and> truthy (prop_of env ''ANTHROPIC_AUTH_TOKEN'') \<and> truthy (prop_of env ''ANTHROPIC_BASE_URL'')"
proof -
  obtain cfg where c: "map_of selectedConfig ''config'' = Some cfg"
    using assms by (cases "map_of selectedConfig ''config''") (simp_all add: nested_yields_both_def)
  obtain env where e: "prop_of cfg ''env'' = Some env"
    using assms c by (cases "prop_of cfg ''env''") (simp_all add: nested_yields_both_def)
  have t: "truthy (prop_of env ''ANTHROPIC_AUTH_TOKEN'') \<and> truthy (prop_of env ''ANTHROPIC_BASE_URL'')"
    using assms c e by (simp add: nested_yields_both_def)
  have te: "truthy (Some env)" using t truthy_prop_of_truthy by blast
  have tc: "truthy (Some cfg)" using e truthy_prop_of_truthy [of cfg "''env''"] te by simp
  have "nested_env selectedConfig = Some env"
    using c e te tc by (simp add: nested_env_def)
  then show ?thesis using c e t by simp
qed

text \<open>
  C3, as amended. The merger takes the credentials from \<open>config.env\<close> whenever
  \<open>config\<close> and \<open>config.env\<close> are there (truthy), whatever \<open>env\<close> holds, and otherwise
  from the top-level \<open>authToken\<close> and \<open>baseUrl\<close> when both are truthy. It fails, with
  the invalid-format error and no other, exactly when \<open>config.env\<close> is not there and
  \<open>authToken\<close> or \<open>baseUrl\<close> is missing or empty. So it fails only when neither shape
  yields both values, and it accepts each shape that yields both.
\<close>

theorem extract_credentials_shapes:
  "(extract_credentials selectedConfig = Inl InvalidConfigFormat
      \<longleftrightarrow> nested_env selectedConfig = None \<and> \<not> flat_yields_both selectedConfig)
   \<and> (extract_credentials selectedConfig = Inl InvalidConfigFormat
      \<longrightarrow> \<not> nested_yields_both selectedConfig \<and> \<not> flat_yields_both selectedConfig)
   \<and> (extract_credentials selectedConfig \<noteq> Inl TypeError \<and> extract_credentials selectedConfig \<noteq> Inl WriteError)
   \<and> (\<forall>env. nested_env selectedConfig = Some env \<longrightarrow>
         extract_credentials selectedConfig
           = Inr (prop_of env ''ANTHROPIC_AUTH_TOKEN'', prop_of env ''ANTHROPIC_BASE_URL''))
   \<and> (nested_env selectedConfig = None \<and> flat_yields_both selectedConfig \<longrightarrow>
         extract_credentials selectedConfig
           = Inr (map_of selectedConfig ''authToken'', map_of selectedConfig ''baseUrl''))"
proof -
  have a: "extract_credentials selectedConfig = Inl InvalidConfigFormat
      \<longleftrightarrow> nested_env selectedConfig = None \<and> \<not> flat_yields_both selectedConfig"
    by (cases "nested_env selectedConfig") (simp_all add: extract_credentials_def flat_yields_both_def)
  have b: "extract_credentials selectedConfig = Inl InvalidConfigFormat
      \<longrightarrow> \<not> nested_yields_both selectedConfig \<and> \<not> flat_yields_both selectedConfig"
    using a nested_yields_both_env [of selectedConfig] by auto
  have c: "extract_credentials selectedConfig \<noteq> Inl TypeError \<and> extract_credentials selectedConfig \<noteq> Inl WriteError"
    by (cases "nested_env selectedConfig") (simp_all add: extract_credentials_def)
  have d: "\<forall>env. nested_env selectedConfig = Some env \<longrightarrow>
         extract_credentials selectedConfig
           = Inr (prop_of env ''ANTHROPIC_AUTH_TOKEN'', prop_of env ''ANTHROPIC_BASE_URL'')"
    by (simp add: extract_credentials_def)
  have e: "nested_env selectedConfig = None \<and> flat_yields_both selectedConfig \<longrightarrow>
         extract_credentials selectedConfig
           = Inr (map_of selectedConfig ''authToken'', map_of selectedConfig ''baseUrl'')"
    by (simp add: extract_credentials_def flat_yields_both_def)
  show ?thesis using a b c d e by simp
qed

text \<open>
  The nested configuration \<open>B\<close>, the flat configuration \<open>F\<close>, and a configuration with
  a name only.
\<close>

theorem extract_credentials_shapes_witness:
  "nested_env scenario_B
     = Some (JObj [(''ANTHROPIC_AUTH_TOKEN'', JStr ''sk-bbbb''), (''ANTHROPIC_BASE_URL'', JStr ''https://y'')])
   \<and> extract_credentials scenario_B = Inr (Some (JStr ''sk-bbbb''), Some (JStr ''https://y''))
   \<and> nested_env flat_F = None
   \<and> flat_yields_both flat_F
   \<and> extract_credentials flat_F = Inr (Some (JStr ''sk-aaaa''), Some (JStr ''https://x''))
   \<and> nested_env [(''name'', JStr ''C'')] = None
   \<and> \<not> flat_yields_both [(''name'', JStr ''C'')]
   \<and> \<not> nested_yields_both [(''name'', JStr ''C'')]
   \<and> extract_credentials [(''name'', JStr ''C'')] = Inl InvalidConfigFormat"
proof -
  have n1: "nested_env scenario_B
     = Some (JObj [(''ANTHROPIC_AUTH_TOKEN'', JStr ''sk-bbbb''), (''ANTHROPIC_BASE_URL'', JStr ''https://y'')])"
    by (simp add: nested_env_def)
  have n2: "nested_env flat_F = None" by (simp add: nested_env_def)
  have f2: "flat_yields_both flat_F" by (simp add: flat_yields_both_def)
  have n3: "nested_env [(''name'', JStr ''C'')] = None" by (simp add: nested_env_def)
  have f3: "\<not> flat_yields_both [(''name'', JStr ''C'')]" by (simp add: flat_yields_both_def)
  have e1: "extract_credentials scenario_B = Inr (Some (JStr ''sk-bbbb''), Some (JStr ''https://y''))"
    using extract_credentials_shapes [of scenario_B] n1 by simp
  have e2: "extract_credentials flat_F = Inr (Some (JStr ''sk-aaaa''), Some (JStr ''https://x''))"
    using extract_credentials_shapes [of flat_F] n2 f2 by simp
  have e3: "extract_credentials [(''name'', JStr ''C'')] = Inl InvalidConfigFormat"
    using extract_credentials_shapes [of "[(''name'', JStr ''C'')]"] n3 f3 by blast
  have y3: "\<not> nested_yields_both [(''name'', JStr ''C'')]"
    using extract_credentials_shapes [of "[(''name'', JStr ''C'')]"] e3 by blast
  show ?thesis using n1 e1 n2 f2 e2 n3 f3 y3 e3 by simp
qed

text \<open>
  A configuration in the nested shape whose \<open>env\<close> is empty: neither shape yields both
  values, and the merger does not fail. It returns, and the settings written hold
  neither the token nor the base URL.
\<close>

theorem extract_credentials_counterexample:
  "\<not> nested_yields_both [(''name'', JStr ''A''), (''config'', JObj [(''env'', JObj [])])]
   \<and> \<not> flat_yields_both [(''name'', JStr ''A''), (''config'', JObj [(''env'', JObj [])])]
   \<and> extract_credentials [(''name'', JStr ''A''), (''config'', JObj [(''env'', JObj [])])] = Inr (None, None)
   \<and> saveSettingsPreservingHooks [(''name'', JStr ''A''), (''config'', JObj [(''env'', JObj [])])] NoFault
        \<lparr>settings_file = Parsed (JObj [(''env'', JObj [(''ANTHROPIC_AUTH_TOKEN'', JStr ''T1''), (''ANTHROPIC_BASE_URL'', JStr ''U1'')])]),
         api_configs_file = Parsed [[(''name'', JStr ''A''), (''config'', JObj [(''env'', JObj [])])]]\<rparr>
      = (Returned,
         \<lparr>settings_file = Parsed (JObj [(''env'', JObj []), (''_configName'', JStr ''A'')]),
          api_configs_file = Parsed [[(''name'', JStr ''A''), (''config'', JObj [(''env'', JObj [])])]]\<rparr>)"
  by (simp add: nested_yields_both_def flat_yields_both_def extract_credentials_def nested_env_def
        saveSettingsPreservingHooks_def updated_settings_def readSettings_def writeFileSync_def)

text \<open>
  C4, as amended. When the settings cannot be written, \<open>saveSettings\<close> and the merger
  end the process with exit code 1. The file is written in place, with no temporary
  file and no renaming: it is as it was when the failure comes before the file is
  opened, and it is truncated, no longer JSON, when the failure comes after.
\<close>

theorem write_failure:
  assumes "fault \<noteq> NoFault"
  shows "saveSettings settings fault s
           = (Exited 1 WriteError,
              s\<lparr>settings_file := (if fault = FailBeforeOpen then settings_file s else Unparsable)\<rparr>)
     \<and> (\<forall>doc. updated_settings selectedConfig (readSettings s) = Inr doc \<longrightarrow>
          saveSettingsPreservingHooks selectedConfig fault s
            = (Exited 1 WriteError,
               s\<lparr>settings_file := (if fault = FailBeforeOpen then settings_file s else Unparsable)\<rparr>))"
  using assms
  by (cases fault) (simp_all add: saveSettings_def saveSettingsPreservingHooks_def writeFileSync_def)

text \<open>A write that fails before the file is opened leaves the settings as they were.\<close>

theorem write_failure_witness:
  "FailBeforeOpen \<noteq> NoFault
   \<and> saveSettings merge_settings FailBeforeOpen
        \<lparr>settings_file = Parsed (JObj [(''model'', JStr ''opus'')]), api_configs_file = Absent\<rparr>
      = (Exited 1 WriteError,
         \<lparr>settings_file = Parsed (JObj [(''model'', JStr ''opus'')]), api_configs_file = Absent\<rparr>)
   \<and> saveSettingsPreservingHooks merge_B FailBeforeOpen
        \<lparr>settings_file = Parsed (JObj [(''model'', JStr ''opus'')]), api_configs_file = Absent\<rparr>
      = (Exited 1 WriteError,
         \<lparr>settings_file = Parsed (JObj [(''model'', JStr ''opus'')]), api_configs_file = Absent\<rparr>)"
proof -
  let ?s = "\<lparr>settings_file = Parsed (JObj [(''model'', JStr ''opus'')]), api_configs_file = Absent\<rparr>"
  have h: "FailBeforeOpen \<noteq> NoFault" by simp
  obtain doc where d: "updated_settings merge_B (readSettings ?s) = Inr doc"
    by (simp add: updated_settings_def extract_credentials_def nested_env_def readSettings_def)
  show ?thesis
    using write_failure [OF h, of merge_settings ?s merge_B] d by simp
qed

text \<open>
  A write that fails once the file is truncated: the process exits with code 1 and the
  settings document that was stored is lost.
\<close>

theorem write_failure_counterexample:
  "saveSettingsPreservingHooks
      [(''name'', JStr ''B''), (''config'', JObj [(''env'', JObj [(''ANTHROPIC_AUTH_TOKEN'', JStr ''T2''), (''ANTHROPIC_BASE_URL'', JStr ''U2'')])])]
      FailAfterTruncate
      \<lparr>settings_file = Parsed (JObj [(''_configName'', JStr ''A''), (''model'', JStr ''opus'')]),
       api_configs_file = Absent\<rparr>
   = (Exited 1 WriteError, \<lparr>settings_file = Unparsable, api_configs_file = Absent\<rparr>)"
  by (simp add: saveSettingsPreservingHooks_def updated_settings_def extract_credentials_def nested_env_def
        readSettings_def writeFileSync_def)

section \<open>Properties of the workflows\<close>

lemma build_choices_values:
  "build_choices apiConfigs = Inr choices \<Longrightarrow>
     choices = [0..<length apiConfigs] \<and> (\<forall>config \<in> set apiConfigs. config_info config = Inr ())"
  by (auto simp: build_choices_def list_all_iff split: if_splits)

lemma config_info_name: "config_info config = Inr () \<Longrightarrow> \<exists>name. map_of config ''name'' = Some (JStr name)"
  by (auto simp: config_info_def split: option.splits json.splits)

lemma splice1_nth:
  "j < length apiConfigs - 1 \<Longrightarrow>
     splice1 i apiConfigs ! j = (if j < i then apiConfigs ! j else apiConfigs ! Suc j)"
  by (auto simp: splice1_def nth_append min_def)







lemma ask_rejected: "validate input \<noteq> Valid \<Longrightarrow> ask validate (input # later) = ask validate later"
  by simp

text \<open>
  C7. A candidate name that, once trimmed, is the name of an entry of the list is not
  accepted by the prompt (the verdict names the existing entry, unless the candidate is
  blank). The rejected answer leaves no trace: the workflow goes on as if it had not been
  given, and when the user gives no other name it ends with the two files as they were.
  Names are compared as \<open>===\<close> compares strings, character by character.
\<close>

theorem addConfig_rejects_existing_name:
  assumes "config \<in> set (readApiConfigs s)"
    and "map_of config ''name'' = Some (JStr (trim input))"
  shows "validate_name s input \<noteq> Valid
     \<and> (trim input \<noteq> [] \<longrightarrow> validate_name s input = NameExists (trim input))
     \<and> addConfig (input # later) baseUrls authTokens model confirm fault s
         = addConfig later baseUrls authTokens model confirm fault s
     \<and> addConfig [input] baseUrls authTokens model confirm fault s = (Aborted, s)"
proof -
  have ex: "list_ex (\<lambda>config. strict_eq (map_of config ''name'') (Some (JStr (trim input)))) (readApiConfigs s)"
    unfolding list_ex_iff using assms by (intro bexI [of _ config]) simp_all
  have v: "validate_name s input = (if trim input = [] then NameEmpty else NameExists (trim input))"
    using ex by (simp add: validate_name_def)
  then have nv: "validate_name s input \<noteq> Valid" by simp
  have skip: "ask (validate_name s) (input # later) = ask (validate_name s) later" for later
    using nv by simp
  show ?thesis
    using v nv by (simp add: addConfig_def skip)
qed

text \<open>
  The candidate \<open>B\<close> between spaces is rejected, \<open>B\<close> being in the list; the candidate
  \<open>b\<close> is accepted.
\<close>

theorem addConfig_rejects_existing_name_witness:
  "scenario_B \<in> set (readApiConfigs scenario_fs)
   \<and> map_of scenario_B ''name'' = Some (JStr (trim '' B ''))
   \<and> validate_name scenario_fs '' B '' = NameExists ''B''
   \<and> validate_name scenario_fs ''b'' = Valid
   \<and> addConfig ['' B ''] [''https://z''] [''sk-cccc''] [] True NoFault scenario_fs = (Aborted, scenario_fs)"
proof -
  have t: "trim '' B '' = ''B''" by (simp add: trim_def js_whitespace_def)
  have h1: "scenario_B \<in> set (readApiConfigs scenario_fs)" by (simp add: readApiConfigs_def)
  have h2: "map_of scenario_B ''name'' = Some (JStr (trim '' B ''))" using t by simp
  have v: "validate_name scenario_fs ''b'' = Valid"
    by (simp add: validate_name_def trim_def js_whitespace_def readApiConfigs_def)
  note r = addConfig_rejects_existing_name [OF h1 h2, of "[]" "[''https://z'']" "[''sk-cccc'']" "[]" True NoFault]
  have e: "validate_name scenario_fs '' B '' = NameExists ''B''"
    using r t by simp
  have a: "addConfig ['' B ''] [''https://z''] [''sk-cccc''] [] True NoFault scenario_fs = (Aborted, scenario_fs)"
    using r by blast
  show ?thesis using h1 h2 e v a by simp
qed

lemma already_active_same:
  "config_info current = Inr () \<Longrightarrow> already_active (Some current) current"
  using config_info_name [of current] by (auto simp: already_active_def)

text \<open>
  C8. In \<open>listAndSelectConfig\<close>, when the menu is shown and the user selects, in the
  menu or by a typed ordinal, the configuration that the resolver returns, the workflow
  ends with the message that the configuration is already the current one: whatever the
  user would have answered to the confirmation, nothing is written and both files are as
  they were.
\<close>

theorem listAndSelectConfig_already_active:
  assumes "build_choices (readApiConfigs s) = Inr choices"
    and "getCurrentConfig s = Some current"
    and "(choice = MenuPick i \<and> i < length (readApiConfigs s) \<and> readApiConfigs s ! i = current)
       \<or> (choice = TypedOrdinal answer \<and> parseInt10 answer = Some k \<and> 1 \<le> k
            \<and> k \<le> int (length (readApiConfigs s)) \<and> readApiConfigs s ! nat (k - 1) = current)"
  shows "listAndSelectConfig choice confirm fault s = (AlreadyActive, s)"
proof -
  have ne: "length (readApiConfigs s) \<noteq> 0" using assms(3) by auto
  have cur: "current \<in> set (readApiConfigs s)"
    using assms(3) by (auto simp: nth_mem)
  have "config_info current = Inr ()"
    using build_choices_values [OF assms(1)] cur by simp
  then have act: "already_active (Some current) current"
    by (rule already_active_same)
  from assms(3) show ?thesis
  proof
    assume m: "choice = MenuPick i \<and> i < length (readApiConfigs s) \<and> readApiConfigs s ! i = current"
    then show ?thesis
      using ne assms(1,2) act by (simp add: listAndSelectConfig_def Let_def)
  next
    assume t: "choice = TypedOrdinal answer \<and> parseInt10 answer = Some k \<and> 1 \<le> k
            \<and> k \<le> int (length (readApiConfigs s)) \<and> readApiConfigs s ! nat (k - 1) = current"
    then show ?thesis
      using ne assms(1,2) act by (simp add: listAndSelectConfig_def Let_def)
  qed
qed

text \<open>
  The settings of the scenario name \<open>B\<close>, the second entry: picking it in the menu, or
  typing its ordinal, changes nothing.
\<close>

theorem listAndSelectConfig_already_active_witness:
  "build_choices (readApiConfigs scenario_fs) = Inr [0, 1]
   \<and> getCurrentConfig scenario_fs = Some scenario_B
   \<and> readApiConfigs scenario_fs ! 1 = scenario_B
   \<and> parseInt10 ''2'' = Some 2
   \<and> listAndSelectConfig (MenuPick 1) True NoFault scenario_fs = (AlreadyActive, scenario_fs)
   \<and> listAndSelectConfig (TypedOrdinal ''2'') True NoFault scenario_fs = (AlreadyActive, scenario_fs)"
proof -
  have ra: "readApiConfigs scenario_fs = [scenario_A, scenario_B]" by (simp add: readApiConfigs_def)
  have h1: "build_choices (readApiConfigs scenario_fs) = Inr [0, 1]"
    unfolding ra by (simp add: build_choices_def config_info_def upt_rec)
  have h2: "getCurrentConfig scenario_fs = Some scenario_B"
    by (simp add: getCurrentConfig_def readSettings_def readApiConfigs_def name_matches_def)
  have p: "parseInt10 ''2'' = Some 2"
    by (simp add: parseInt10_def js_whitespace_def is_digit_def digits_value_def)
  have m: "(MenuPick 1 = MenuPick 1 \<and> 1 < length (readApiConfigs scenario_fs)
              \<and> readApiConfigs scenario_fs ! 1 = scenario_B)
         \<or> (MenuPick 1 = TypedOrdinal [] \<and> parseInt10 [] = Some 0 \<and> 1 \<le> (0::int)
              \<and> 0 \<le> int (length (readApiConfigs scenario_fs))
              \<and> readApiConfigs scenario_fs ! nat (0 - 1) = scenario_B)"
    unfolding ra by simp
  have t: "(TypedOrdinal ''2'' = MenuPick 0 \<and> 0 < length (readApiConfigs scenario_fs)
              \<and> readApiConfigs scenario_fs ! 0 = scenario_B)
         \<or> (TypedOrdinal ''2'' = TypedOrdinal ''2'' \<and> parseInt10 ''2'' = Some 2 \<and> 1 \<le> (2::int)
              \<and> 2 \<le> int (length (readApiConfigs scenario_fs))
              \<and> readApiConfigs scenario_fs ! nat (2 - 1) = scenario_B)"
    unfolding ra using p by simp
  have r1: "listAndSelectConfig (MenuPick 1) True NoFault scenario_fs = (AlreadyActive, scenario_fs)"
    using listAndSelectConfig_already_active [OF h1 h2 m] .
  have r2: "listAndSelectConfig (TypedOrdinal ''2'') True NoFault scenario_fs = (AlreadyActive, scenario_fs)"
    using listAndSelectConfig_already_active [OF h1 h2 t] .
  show ?thesis using h1 h2 p r1 r2 unfolding ra by simp
qed

end

